theory Spec2Isabelle
  imports Main "HOL-Library.Sublist"
begin

section \<open>Strings and character classes\<close>

text \<open>
  A JavaScript string is a sequence of UTF-16 code units. The embedding uses HOL's
  \<open>string\<close>, whose characters are the code units \<open>0..255\<close>; every definition below is the
  behaviour of \<open>src/lib/Prompt.ts\<close> on strings over that range.

  In a regular expression without the \<open>u\<close> flag, \<open>\s\<close> matches (within \<open>0..255\<close>) the
  characters TAB, LF, VT, FF, CR, SPACE and NBSP, and \<open>\w\<close> matches \<open>[A-Za-z0-9_]\<close>.
\<close>

definition is_space :: "char \<Rightarrow> bool" where
  "is_space c = (let n = (of_char c :: nat) in (9 \<le> n \<and> n \<le> 13) \<or> n = 32 \<or> n = 160)"

definition is_word :: "char \<Rightarrow> bool" where
  "is_word c = (let n = (of_char c :: nat) in
     (48 \<le> n \<and> n \<le> 57) \<or> (65 \<le> n \<and> n \<le> 90) \<or> n = 95 \<or> (97 \<le> n \<and> n \<le> 122))"

definition lbrace :: char where "lbrace = CHR ''{''"
definition rbrace :: char where "rbrace = CHR ''}''"
definition dollar :: char where "dollar = CHR ''$''"

section \<open>The two regular expressions of \<open>resolvePrompt\<close>\<close>


definition match_key :: "string \<Rightarrow> string \<Rightarrow> nat option" where
  "match_key key s =
     (case s of
        c1 # c2 # r \<Rightarrow>
          if c1 = lbrace \<and> c2 = lbrace then
            (let w1 = takeWhile is_space r;
                 r1 = dropWhile is_space r in
             if take (length key) r1 = key then
               (let r2 = drop (length key) r1;
                    w2 = takeWhile is_space r2;
                    r3 = dropWhile is_space r2 in
                if take 2 r3 = [rbrace, rbrace]
                then Some (2 + length w1 + length key + length w2 + 2)
                else None)
             else None)
          else None
      | _ \<Rightarrow> None)"

text \<open>\<open>/{{\s*[\w]+\s*}}/g\<close> (line 69), matched at the first character of \<open>s\<close>.\<close>

definition match_any :: "string \<Rightarrow> nat option" where
  "match_any s =
     (case s of
        c1 # c2 # r \<Rightarrow>
          if c1 = lbrace \<and> c2 = lbrace then
            (let w1 = takeWhile is_space r;
                 r1 = dropWhile is_space r;
                 nm = takeWhile is_word r1;
                 r2 = dropWhile is_word r1;
                 w2 = takeWhile is_space r2;
                 r3 = dropWhile is_space r2 in
             if nm \<noteq> [] \<and> take 2 r3 = [rbrace, rbrace]
             then Some (2 + length w1 + length nm + length w2 + 2)
             else None)
          else None
      | _ \<Rightarrow> None)"

lemma match_key_bounds: "match_key key s = Some n \<Longrightarrow> 4 \<le> n \<and> n \<le> length s"
proof -
  assume a: "match_key key s = Some n"
  then obtain r where s: "s = lbrace # lbrace # r"
    by (auto simp: match_key_def split: list.splits if_splits)
  define r1 where "r1 = dropWhile is_space r"
  define r2 where "r2 = drop (length key) r1"
  define r3 where "r3 = dropWhile is_space r2"
  from a s have k: "take (length key) r1 = key" and e: "take 2 r3 = [rbrace, rbrace]"
    and n: "n = 2 + length (takeWhile is_space r) + length key + length (takeWhile is_space r2) + 2"
    by (auto simp: match_key_def Let_def r1_def r2_def r3_def split: if_splits)
  have l3: "2 \<le> length r3"
    using e by (cases r3; cases "tl r3") auto
  have "length r = length (takeWhile is_space r) + length r1"
    unfolding r1_def by (metis length_append takeWhile_dropWhile_id)
  moreover have "length r1 = length key + length r2"
    unfolding r2_def using k by (metis append_take_drop_id length_append)
  moreover have "length r2 = length (takeWhile is_space r2) + length r3"
    unfolding r3_def by (metis length_append takeWhile_dropWhile_id)
  ultimately show ?thesis using n l3 s by simp
qed

lemma match_any_bounds: "match_any s = Some n \<Longrightarrow> 4 \<le> n \<and> n \<le> length s"
proof -
  assume a: "match_any s = Some n"
  then obtain r where s: "s = lbrace # lbrace # r"
    by (auto simp: match_any_def split: list.splits if_splits)
  define r1 where "r1 = dropWhile is_space r"
  define r2 where "r2 = dropWhile is_word r1"
  define r3 where "r3 = dropWhile is_space r2"
  from a s have e: "take 2 r3 = [rbrace, rbrace]"
    and n: "n = 2 + length (takeWhile is_space r) + length (takeWhile is_word r1)
              + length (takeWhile is_space r2) + 2"
    by (auto simp: match_any_def Let_def r1_def r2_def r3_def split: if_splits)
  have l3: "2 \<le> length r3"
    using e by (cases r3; cases "tl r3") auto
  have "length r = length (takeWhile is_space r) + length r1"
    unfolding r1_def by (metis length_append takeWhile_dropWhile_id)
  moreover have "length r1 = length (takeWhile is_word r1) + length r2"
    unfolding r2_def by (metis length_append takeWhile_dropWhile_id)
  moreover have "length r2 = length (takeWhile is_space r2) + length r3"
    unfolding r3_def by (metis length_append takeWhile_dropWhile_id)
  ultimately show ?thesis using n l3 s by simp
qed

section \<open>\<open>String.prototype.replace\<close> and \<open>String.prototype.match\<close> with a global regex\<close>

text \<open>
  \<open>GetSubstitution\<close> for a regex without capture groups: in the replacement text,
  \<open>$$\<close> is \<open>$\<close>, \<open>$&\<close> is the matched text, \<open>$`\<close> the text before the match and \<open>$'\<close> the text
  after it; every other character, also a \<open>$\<close> before anything else, stands for itself.
\<close>

fun expand :: "string \<Rightarrow> string \<Rightarrow> string \<Rightarrow> string \<Rightarrow> string" where
  "expand matched pre post [] = []"
| "expand matched pre post [c] = [c]"
| "expand matched pre post (c # d # r) =
     (if c = dollar then
        (if d = dollar then dollar # expand matched pre post r
         else if d = CHR ''&'' then matched @ expand matched pre post r
         else if d = CHR 0x60 then pre @ expand matched pre post r
         else if d = CHR 0x27 then post @ expand matched pre post r
         else c # expand matched pre post (d # r))
      else c # expand matched pre post (d # r))"

text \<open>
  \<open>prompt.replace(regex, value)\<close> (line 65): every match, left to right, none overlapping;
  \<open>pre\<close> is the part of the subject already passed.
\<close>

function replace_from :: "string \<Rightarrow> string \<Rightarrow> string \<Rightarrow> string \<Rightarrow> string" where
  "replace_from key rep pre s =
     (case match_key key s of
        Some n \<Rightarrow> expand (take n s) pre (drop n s) rep
                   @ replace_from key rep (pre @ take n s) (drop n s)
      | None \<Rightarrow> (case s of [] \<Rightarrow> [] | c # cs \<Rightarrow> c # replace_from key rep (pre @ [c]) cs))"
  by pat_completeness auto
termination
  by (relation "measure (\<lambda>(key, rep, pre, s). length s)")
     (auto dest: match_key_bounds)

declare replace_from.simps [simp del]

definition replace :: "string \<Rightarrow> string \<Rightarrow> string \<Rightarrow> string" where
  "replace key rep s = replace_from key rep [] s"

text \<open>\<open>prompt.match(/{{\s*[\w]+\s*}}/g)\<close> (line 69): the matched substrings, in order.
  JavaScript returns \<open>null\<close> where the model returns \<open>[]\<close>.\<close>

function match_all :: "string \<Rightarrow> string list" where
  "match_all s =
     (case match_any s of
        Some n \<Rightarrow> take n s # match_all (drop n s)
      | None \<Rightarrow> (case s of [] \<Rightarrow> [] | c # cs \<Rightarrow> match_all cs))"
  by pat_completeness auto
termination
  by (relation "measure length") (auto dest: match_any_bounds)

declare match_all.simps [simp del]

section \<open>Values, objects and property order\<close>

text \<open>
  The values bound to template variables: the type parameter \<open>T\<close> of the source is
  generic; the embedding has strings, integral numbers and \<open>undefined\<close>. \<open>to_string\<close> is the
  \<open>ToString\<close> that \<open>replace\<close> applies to its second argument.

  \<open>VNum n\<close> stands for the Number \<open>n\<close> when \<open>n\<close> is a safe integer, of magnitude at most
  \<open>2^53 - 1\<close>: those are the integers a Number holds exactly, and \<open>ToString\<close> writes them with
  all their decimal digits (beyond \<open>10^21\<close> it would switch to the exponent notation).
  \<open>safe_value\<close> says so. The statement that names the text of arbitrary values
  (\<open>covered_template_resolves\<close>) assumes it of every value; \<open>unbound_placeholder_reported\<close>
  holds whatever text the values have; the fixed bindings of the other statements have
  small numbers only.
\<close>

datatype jsval = VStr string | VNum int | VUndefined


definition digit_char :: "nat \<Rightarrow> char" where
  "digit_char d = char_of (48 + d)"

fun nat_to_dec :: "nat \<Rightarrow> string" where
  "nat_to_dec n = (if n < 10 then [digit_char n] else nat_to_dec (n div 10) @ [digit_char (n mod 10)])"

declare nat_to_dec.simps [simp del]

fun to_string :: "jsval \<Rightarrow> string" where
  "to_string (VStr s) = s"
| "to_string (VNum i) = (if i < 0 then CHR ''-'' # nat_to_dec (nat (- i)) else nat_to_dec (nat i))"
| "to_string VUndefined = ''undefined''"

text \<open>
  A plain object is the list of its own enumerable string-keyed properties in the order
  \<open>Object.entries\<close>, \<open>for ... in\<close> and \<open>JSON.stringify\<close> visit them: array indices
  (canonical decimal numerals below \<open>2^32 - 1\<close>) first, ascending, then the other keys in
  the order of their creation. \<open>set_prop\<close> is an assignment \<open>obj[k] = v\<close>, \<open>spread\<close> the
  object literal \<open>{...a, ...b}\<close>.
\<close>

type_synonym 'a obj = "(string \<times> 'a) list"

definition is_digit :: "char \<Rightarrow> bool" where
  "is_digit c = (let n = (of_char c :: nat) in 48 \<le> n \<and> n \<le> 57)"

definition dec_value :: "string \<Rightarrow> nat" where
  "dec_value k = foldl (\<lambda>a c. 10 * a + (of_char c - 48)) 0 k"

definition is_array_index :: "string \<Rightarrow> bool" where
  "is_array_index k =
     (case k of
        [] \<Rightarrow> False
      | c # r \<Rightarrow> list_all is_digit k \<and> (if r = [] then True else c \<noteq> CHR ''0'')
                 \<and> dec_value k < 4294967295)"

definition key_before :: "string \<Rightarrow> string \<Rightarrow> bool" where
  "key_before k k' =
     (if is_array_index k then (if is_array_index k' then dec_value k < dec_value k' else True)
      else False)"

fun insert_key :: "string \<Rightarrow> 'a \<Rightarrow> 'a obj \<Rightarrow> 'a obj" where
  "insert_key k v [] = [(k, v)]"
| "insert_key k v ((k', v') # r) =
     (if key_before k k' then (k, v) # (k', v') # r else (k', v') # insert_key k v r)"

definition set_prop :: "string \<Rightarrow> 'a \<Rightarrow> 'a obj \<Rightarrow> 'a obj" where
  "set_prop k v ob =
     (if k \<in> set (map fst ob)
      then map (\<lambda>(k', v'). if k' = k then (k', v) else (k', v')) ob
      else insert_key k v ob)"

definition spread :: "'a obj list \<Rightarrow> 'a obj" where
  "spread srcs = fold (\<lambda>(k, v). set_prop k v) (concat srcs) []"

text \<open>\<open>Array.prototype.join\<close>.\<close>

fun join :: "string \<Rightarrow> string list \<Rightarrow> string" where
  "join sep [] = []"
| "join sep [x] = x"
| "join sep (x # y # r) = x @ sep @ join sep (y # r)"

section \<open>Errors\<close>

text \<open>
  Every \<open>throw\<close> of \<open>Prompt.ts\<close> and every exception of the code it calls is a value:
  \<open>MissingVars\<close> (line 71), \<open>NoValidator\<close> (line 84), \<open>InvalidData\<close> (line 88),
  \<open>NoGenerator\<close> (line 111); \<open>TypeError\<close> for reading a property of \<open>undefined\<close>,
  \<open>CompileError\<close> for what \<open>new Ajv().compile\<close> throws, \<open>SyntaxError\<close> for \<open>JSON.parse\<close>,
  \<open>BackendError\<close> for a rejected \<open>execute\<close>.
\<close>

datatype error =
    MissingVars "string list"
  | NoValidator
  | InvalidData "string list"
  | NoGenerator
  | TypeError
  | CompileError string
  | SyntaxError string
  | BackendError string

fun message :: "error \<Rightarrow> string" where
  "message (MissingVars ts) = ''Missing template variables or default values: '' @ join '', '' ts"
| "message NoValidator = ''No validator set up.''"
| "message (InvalidData ms) = ''Invalid data: '' @ join '', '' ms"
| "message NoGenerator = ''No generator was provided yet. Use prompt.using(generator) to set a generator or use Generator.prompt() to create new prompts.''"
| "message TypeError = ''Cannot read properties of undefined''"
| "message (CompileError m) = m"
| "message (SyntaxError m) = m"
| "message (BackendError m) = m"

section \<open>Schemas and their description\<close>

text \<open>
  A JSON schema node as \<open>describeSchema\<close> reads it: its \<open>type\<close>, its \<open>properties\<close> (an
  object, empty when absent), its \<open>items\<close> and its \<open>required\<close> list. The value that
  \<open>describeSchema\<close> builds is a string, an object or an array.
\<close>

datatype json_schema =
  Schema (s_type: string) (s_properties: "(string \<times> json_schema) list")
         (s_items: "json_schema option") (s_required: "string list")

datatype jvalue = JString string | JObject "(string \<times> jvalue) list" | JArray "jvalue list"

text \<open>
  \<open>describeSchema\<close> (lines 34-56). An \<open>array\<close> node without \<open>items\<close> makes
  \<open>itemSchema.type\<close> throw. The first line of the source (\<open>if (!schema) return 'undefined'\<close>)
  is not reached from \<open>resolvePrompt\<close>, which calls it only when \<open>this._schema\<close> is set.
  The assignment \<open>props[key] = ...\<close> (line 42) creates the property \<open>key\<close> of the fresh
  object \<open>props\<close>, except for the key \<open>__proto__\<close>, which is the inherited accessor of the
  prototype: assigning to it creates no own property, so \<open>JSON.stringify\<close> does not see it.
\<close>

fun describeSchema :: "json_schema \<Rightarrow> error + jvalue"
  and describeProps :: "jvalue obj \<Rightarrow> (string \<times> json_schema) list \<Rightarrow> error + jvalue obj" where
  "describeSchema (Schema t props items req) =
     (if t = ''object'' then
        (case describeProps [] props of Inl err \<Rightarrow> Inl err | Inr ps \<Rightarrow> Inr (JObject ps))
      else if t = ''array'' then
        (case items of
           None \<Rightarrow> Inl TypeError
         | Some (Schema t' props' items' req') \<Rightarrow>
             if t' = ''object'' then
               (case describeProps [] props' of
                  Inl err \<Rightarrow> Inl err
                | Inr ps \<Rightarrow> Inr (JArray [JObject ps]))
             else Inr (JArray [JString t']))
      else Inr (JString t))"
| "describeProps acc [] = Inr acc"
| "describeProps acc ((key, s) # r) =
     (case describeSchema s of
        Inl err \<Rightarrow> Inl err
      | Inr d \<Rightarrow> describeProps (if key = ''__proto__'' then acc else set_prop key d acc) r)"

section \<open>\<open>JSON.stringify(value, null, 2)\<close>\<close>

text \<open>
  \<open>QuoteJSONString\<close>: the quotation mark and the backslash are escaped, the control
  characters below \<open>0x20\<close> are written as \<open>\b\<close>, \<open>\t\<close>, \<open>\n\<close>, \<open>\f\<close>, \<open>\r\<close> or \<open>\u00XX\<close> (lower-case
  hexadecimal digits), every other character of the range \<open>0..255\<close> stands for itself.
\<close>

definition dquote :: char where "dquote = CHR 0x22"
definition backslash :: char where "backslash = CHR 0x5C"
definition newline :: char where "newline = CHR 0x0A"

definition hex_char :: "nat \<Rightarrow> char" where
  "hex_char d = (if d < 10 then char_of (48 + d) else char_of (87 + d))"

definition quote_char :: "char \<Rightarrow> string" where
  "quote_char c =
     (let n = (of_char c :: nat) in
      if n = 8 then [backslash, CHR ''b'']
      else if n = 9 then [backslash, CHR ''t'']
      else if n = 10 then [backslash, CHR ''n'']
      else if n = 12 then [backslash, CHR ''f'']
      else if n = 13 then [backslash, CHR ''r'']
      else if c = dquote then [backslash, dquote]
      else if c = backslash then [backslash, backslash]
      else if n < 32 then [backslash, CHR ''u'', CHR ''0'', CHR ''0'', hex_char (n div 16), hex_char (n mod 16)]
      else [c])"

definition quote :: "string \<Rightarrow> string" where
  "quote s = dquote # concat (map quote_char s) @ [dquote]"

text \<open>
  \<open>SerializeJSONProperty\<close> with the gap of two spaces; \<open>ind\<close> is the current indentation.
  An empty array is \<open>[]\<close> and an empty object \<open>{}\<close>; otherwise every element or member is on
  a line of its own, indented one step further, and the closing bracket is on its own
  line at the current indentation.
\<close>

fun stringify :: "string \<Rightarrow> jvalue \<Rightarrow> string"
  and stringify_elements :: "string \<Rightarrow> jvalue list \<Rightarrow> string list"
  and stringify_members :: "string \<Rightarrow> (string \<times> jvalue) list \<Rightarrow> string list" where
  "stringify ind (JString s) = quote s"
| "stringify ind (JArray xs) =
     (if xs = [] then ''[]''
      else ''['' @ [newline]
           @ join ('','' @ [newline]) (map (\<lambda>x. (ind @ ''  '') @ x) (stringify_elements (ind @ ''  '') xs))
           @ [newline] @ ind @ '']'')"
| "stringify ind (JObject kvs) =
     (if kvs = [] then ''{}''
      else ''{'' @ [newline]
           @ join ('','' @ [newline]) (map (\<lambda>x. (ind @ ''  '') @ x) (stringify_members (ind @ ''  '') kvs))
           @ [newline] @ ind @ ''}'')"
| "stringify_elements ind [] = []"
| "stringify_elements ind (x # xs) = stringify ind x # stringify_elements ind xs"
| "stringify_members ind [] = []"
| "stringify_members ind ((k, v) # kvs) =
     (quote k @ '': '' @ stringify ind v) # stringify_members ind kvs"

section \<open>The prompt object\<close>

text \<open>
  The generator (\<open>src/lib/Generator.ts\<close>): its \<open>execute\<close> method is asynchronous and talks to
  a service; the embedding takes it as a function from the prompt to what the awaited
  promise settles with: the text (\<open>Inr\<close>) or the message of the error it rejects with
  (\<open>Inl\<close>), which reaches the caller of \<open>generate\<close> as \<open>BackendError\<close>.
\<close>

record generator =
  g_model :: "string option"
  g_baseUrl :: "string option"
  g_apiKey :: string
  g_execute :: "string \<Rightarrow> string + string"

text \<open>
  A compiled validator (\<open>ValidateFunction\<close> of Ajv) applied to decoded data of type \<open>'j\<close>:
  \<open>None\<close> when it returns \<open>true\<close>, otherwise the \<open>message\<close>s of its \<open>errors\<close>. Ajv is not
  part of the repository: \<open>new Ajv().compile\<close> is the parameter \<open>compile\<close> of the operations
  that call it, and \<open>JSON.parse\<close> is the parameter \<open>parse\<close> of \<open>generate\<close>; where they throw they
  return the message (\<open>Inl\<close>), which becomes a \<open>CompileError\<close> or a \<open>SyntaxError\<close>.
\<close>

type_synonym 'j validator = "'j \<Rightarrow> string list option"

type_synonym 'j compiler = "json_schema \<Rightarrow> string + 'j validator"

text \<open>\<open>PromptOptions\<close> (lines 5-11) and the private fields of \<open>PromptClass\<close> (lines 14-20).\<close>

record options =
  o_generator :: "generator option"
  o_text :: "string option"
  o_schema :: "json_schema option"
  o_defaults :: "jsval obj option"
  o_format :: "string option"

record 'j prompt =
  p_text :: "string option"
  p_defaults :: "jsval obj"
  p_schema :: "json_schema option"
  p_vars :: "jsval obj option"
  p_generator :: "generator option"
  p_validator :: "'j validator option"
  p_format :: string

text \<open>The constructor (lines 22-32); \<open>options.format || 'json'\<close> also replaces the empty
  string. A failing \<open>compile\<close> makes \<open>new\<close> throw, and no object is returned.\<close>

definition new_PromptClass :: "'j compiler \<Rightarrow> options \<Rightarrow> error + 'j prompt" where
  "new_PromptClass compile opts =
     (let this = \<lparr> p_text = o_text opts,
                   p_defaults = (case o_defaults opts of None \<Rightarrow> [] | Some d \<Rightarrow> d),
                   p_schema = o_schema opts,
                   p_vars = None,
                   p_generator = o_generator opts,
                   p_validator = None,
                   p_format = (case o_format opts of None \<Rightarrow> ''json''
                               | Some f \<Rightarrow> if f = [] then ''json'' else f) \<rparr> in
      case o_schema opts of
        None \<Rightarrow> Inr this
      | Some s \<Rightarrow> (case compile s of
                     Inl msg \<Rightarrow> Inl (CompileError msg)
                   | Inr v \<Rightarrow> Inr (this\<lparr>p_validator := Some v\<rparr>)))"

text \<open>\<open>resolvePrompt\<close> (lines 58-80).\<close>

definition all_vars :: "'j prompt \<Rightarrow> jsval obj option \<Rightarrow> jsval obj" where
  "all_vars this vars =
     spread [p_defaults this,
             (case vars of Some v \<Rightarrow> v
              | None \<Rightarrow> (case p_vars this of Some v \<Rightarrow> v | None \<Rightarrow> []))]"

definition substitute :: "jsval obj \<Rightarrow> string \<Rightarrow> string" where
  "substitute allVars prompt = fold (\<lambda>(key, val) p. replace key (to_string val) p) allVars prompt"

definition directive :: "string \<Rightarrow> string" where
  "directive fmt = '' Please provide a '' @ fmt @ '' response with the following structure:'' @ [newline]"

definition resolvePrompt :: "'j prompt \<Rightarrow> jsval obj option \<Rightarrow> error + string" where
  "resolvePrompt this vars =
     (let prompt = substitute (all_vars this vars) (case p_text this of None \<Rightarrow> [] | Some t \<Rightarrow> t);
          unboundVars = match_all prompt in
      if unboundVars \<noteq> [] then Inl (MissingVars unboundVars)
      else (case p_schema this of
              None \<Rightarrow> Inr prompt
            | Some s \<Rightarrow> (case describeSchema s of
                           Inl err \<Rightarrow> Inl err
                         | Inr d \<Rightarrow> Inr (prompt @ directive (p_format this) @ stringify [] d))))"

text \<open>\<open>validate\<close> (lines 82-91).\<close>

definition validate :: "'j prompt \<Rightarrow> 'j \<Rightarrow> error + bool" where
  "validate this data =
     (case p_validator this of
        None \<Rightarrow> Inl NoValidator
      | Some validator \<Rightarrow> (case validator data of
                             Some msgs \<Rightarrow> Inl (InvalidData msgs)
                           | None \<Rightarrow> Inr True))"

text \<open>
  The chainable setters (lines 93-107 and 134-137) assign to fields of \<open>this\<close> and return
  \<open>this\<close>: each is the new state of the same object. \<open>schema\<close> assigns \<open>_schema\<close> before it
  calls \<open>compile\<close>; when \<open>compile\<close> throws, the assignment has happened and the object stays
  as it then is, so \<open>schema\<close> returns the outcome together with the state of \<open>this\<close>.
\<close>

definition text_m :: "string \<Rightarrow> 'j prompt \<Rightarrow> 'j prompt" where
  "text_m t this = this\<lparr>p_text := Some t\<rparr>"

definition defaults :: "jsval obj \<Rightarrow> 'j prompt \<Rightarrow> 'j prompt" where
  "defaults values this = this\<lparr>p_defaults := values\<rparr>"

definition schema :: "'j compiler \<Rightarrow> json_schema \<Rightarrow> 'j prompt \<Rightarrow> (error + unit) \<times> 'j prompt" where
  "schema compile s this =
     (let this1 = this\<lparr>p_schema := Some s\<rparr> in
      case compile s of
        Inl msg \<Rightarrow> (Inl (CompileError msg), this1)
      | Inr v \<Rightarrow> (Inr (), this1\<lparr>p_validator := Some v\<rparr>))"

definition using_m :: "generator \<Rightarrow> 'j prompt \<Rightarrow> 'j prompt" where
  "using_m g this = this\<lparr>p_generator := Some g\<rparr>"

text \<open>\<open>toString\<close>, \<open>toJSON\<close>, \<open>fromJSON\<close> and \<open>vars\<close> (lines 128-156).\<close>

definition toString :: "'j prompt \<Rightarrow> error + string" where
  "toString this = resolvePrompt this None"

definition toJSON :: "'j prompt \<Rightarrow> options" where
  "toJSON this =
     \<lparr> o_generator = None, o_text = p_text this, o_schema = p_schema this,
       o_defaults = Some (p_defaults this), o_format = None \<rparr>"

definition fromJSON :: "'j compiler \<Rightarrow> options \<Rightarrow> generator \<Rightarrow> error + 'j prompt" where
  "fromJSON compile data g =
     (case new_PromptClass compile data of
        Inl err \<Rightarrow> Inl err
      | Inr p \<Rightarrow> Inr (using_m g p))"

definition vars :: "'j compiler \<Rightarrow> jsval obj \<Rightarrow> 'j prompt \<Rightarrow> error + 'j prompt" where
  "vars compile vs this =
     (case new_PromptClass compile (toJSON this) of
        Inl err \<Rightarrow> Inl err
      | Inr newPrompt \<Rightarrow> Inr (newPrompt\<lparr>p_vars := Some vs\<rparr>))"

text \<open>
  \<open>generate\<close> (lines 109-126). The result is what the returned promise settles with,
  \<open>Data\<close> for the validated value and \<open>Text\<close> for the generator's raw text, together with
  the prompts handed to \<open>execute\<close> during the call, in order.
\<close>

datatype 'j result = Data 'j | Text string

definition generate ::
  "(string \<Rightarrow> string + 'j) \<Rightarrow> 'j prompt \<Rightarrow> jsval obj option \<Rightarrow> (error + 'j result) \<times> string list" where
  "generate parse this vs =
     (case p_generator this of
        None \<Rightarrow> (Inl NoGenerator, [])
      | Some g \<Rightarrow>
          (case resolvePrompt this vs of
             Inl err \<Rightarrow> (Inl err, [])
           | Inr prompt \<Rightarrow>
               (case g_execute g prompt of
                  Inl msg \<Rightarrow> (Inl (BackendError msg), [prompt])
                | Inr generatedText \<Rightarrow>
                    if p_schema this \<noteq> None \<and> p_validator this \<noteq> None then
                      (case parse generatedText of
                         Inl msg \<Rightarrow> (Inl (SyntaxError msg), [prompt])
                       | Inr data \<Rightarrow>
                           (case validate this data of
                              Inl err \<Rightarrow> (Inl err, [prompt])
                            | Inr ok \<Rightarrow> (Inr (Data data), [prompt])))
                    else (Inr (Text generatedText), [prompt]))))"

section \<open>Shared references\<close>

text \<open>
  Two holders of one \<open>PromptClass\<close> object hold the same reference. The store is the list
  of the objects allocated so far and a reference is an index into it. \<open>call_schema\<close> is
  \<open>r.schema(s)\<close>: it updates the object in place and returns \<open>this\<close>, the same reference.
  \<open>call_vars\<close> is \<open>r.vars(vs)\<close>: \<open>new PromptClass\<close> allocates an object and its reference is
  returned. The result is \<open>None\<close> for a reference that was never allocated, which no
  JavaScript program can hold.
\<close>

type_synonym 'j store = "'j prompt list"

definition call_schema ::
  "'j compiler \<Rightarrow> json_schema \<Rightarrow> nat \<Rightarrow> 'j store \<Rightarrow> ((error + nat) \<times> 'j store) option" where
  "call_schema compile s r h =
     (if r < length h then
        (case schema compile s (h ! r) of
           (Inl err, this') \<Rightarrow> Some (Inl err, h[r := this'])
         | (Inr u, this') \<Rightarrow> Some (Inr r, h[r := this']))
      else None)"

definition call_vars ::
  "'j compiler \<Rightarrow> jsval obj \<Rightarrow> nat \<Rightarrow> 'j store \<Rightarrow> ((error + nat) \<times> 'j store) option" where
  "call_vars compile vs r h =
     (if r < length h then
        (case vars compile vs (h ! r) of
           Inl err \<Rightarrow> Some (Inl err, h)
         | Inr newPrompt \<Rightarrow> Some (Inr (length h), h @ [newPrompt]))
      else None)"

section \<open>The examples of the test suite\<close>

text \<open>\<open>Prompt({})\<close>: the constructor on no options, which compiles nothing.\<close>

definition no_options :: options where
  "no_options = \<lparr> o_generator = None, o_text = None, o_schema = None,
                   o_defaults = None, o_format = None \<rparr>"

definition blank :: "'j prompt" where
  "blank = \<lparr> p_text = None, p_defaults = [], p_schema = None, p_vars = None,
             p_generator = None, p_validator = None, p_format = ''json'' \<rparr>"

text \<open>The schema of the first test of \<open>src/tests/Prompt.test.ts\<close> (lines 18-28).\<close>

definition book_schema :: json_schema where
  "book_schema =
     Schema ''array'' []
       (Some (Schema ''object''
                [(''title'', Schema ''string'' [] None []), (''year'', Schema ''string'' [] None [])]
                None [''title'', ''year'']))
       []"

text \<open>The chain of that test (lines 15-28) followed by \<open>toString\<close> (line 30).\<close>

definition test_should_generate_a_prompt :: "'j compiler \<Rightarrow> error + string" where
  "test_should_generate_a_prompt compile =
     (case new_PromptClass compile no_options of
        Inl err \<Rightarrow> Inl err
      | Inr p0 \<Rightarrow>
          (case schema compile book_schema
                  (defaults [(''num'', VNum 3)] (text_m ''List {{num}} books by {{name}}.'' p0)) of
             (Inl err, p1) \<Rightarrow> Inl err
           | (Inr u, p1) \<Rightarrow>
               (case vars compile [(''name'', VStr ''George Orwell'')] p1 of
                  Inl err \<Rightarrow> Inl err
                | Inr p2 \<Rightarrow> toString p2)))"

section \<open>Stand-ins for Ajv and for a generator\<close>

text \<open>
  Concrete values for the parameters, used where a statement is evaluated at an input:
  a validator that accepts every value, a compiler that accepts every schema, a
  compiler that rejects a schema whose \<open>required\<close> list repeats a name (as the meta-schema
  of JSON Schema does), and a \<open>JSON.parse\<close> that decodes every text, and a generator that answers with the prompt it
  was given.
\<close>

definition always_valid :: "unit validator" where
  "always_valid data = None"

definition accept_all :: "unit compiler" where
  "accept_all s = Inr always_valid"

definition reject_duplicates :: "unit compiler" where
  "reject_duplicates s =
     (if distinct (s_required s) then Inr always_valid
      else Inl ''schema is invalid: data/required must NOT have duplicate items'')"

definition parse_any :: "string \<Rightarrow> string + unit" where
  "parse_any t = Inr ()"

definition echo :: generator where
  "echo = \<lparr> g_model = None, g_baseUrl = None, g_apiKey = ''key'', g_execute = Inr \<rparr>"

definition duplicate_schema :: json_schema where
  "duplicate_schema =
     Schema ''object'' [(''result'', Schema ''string'' [] None [])] None [''result'', ''result'']"

text \<open>The prompt that the chain of the first test builds when \<open>compile\<close> is \<open>accept_all\<close>.\<close>

definition books_prompt :: "unit prompt" where
  "books_prompt =
     \<lparr> p_text = Some ''List {{num}} books by {{name}}.'',
       p_defaults = [(''num'', VNum 3)],
       p_schema = Some book_schema,
       p_vars = Some [(''name'', VStr ''George Orwell'')],
       p_generator = None,
       p_validator = Some always_valid,
       p_format = ''json'' \<rparr>"

text \<open>\<open>Prompt({text: 'Hi.', schema: {type: 'string'}, format: 'yaml'})\<close>, and what
  \<open>fromJSON\<close> makes of its \<open>toJSON\<close> with the generator \<open>echo\<close>.\<close>

definition yaml_options :: options where
  "yaml_options =
     \<lparr> o_generator = None, o_text = Some ''Hi.'', o_schema = Some (Schema ''string'' [] None []),
       o_defaults = None, o_format = Some ''yaml'' \<rparr>"

definition yaml_prompt :: "unit prompt" where
  "yaml_prompt =
     \<lparr> p_text = Some ''Hi.'', p_defaults = [], p_schema = Some (Schema ''string'' [] None []),
       p_vars = None, p_generator = None, p_validator = Some always_valid,
       p_format = ''yaml'' \<rparr>"

definition yaml_restored :: "unit prompt" where
  "yaml_restored = yaml_prompt\<lparr>p_generator := Some echo, p_format := ''json''\<rparr>"

text \<open>\<open>gpt.prompt().text('What is your favorite {{topic}}?')\<close> of the README, with \<open>echo\<close>
  for the generator.\<close>

definition topic_prompt :: "unit prompt" where
  "topic_prompt = text_m ''What is your favorite {{topic}}?'' (using_m echo blank)"

text \<open>
  A decoded object given by the names of its properties, and a validator that, like one
  compiled by Ajv without the option \<open>allErrors\<close>, returns at the first required property
  that is missing and reports that one only; a \<open>JSON.parse\<close> that decodes \<open>{}\<close> to the object
  without properties; a generator that answers \<open>{}\<close>; a prompt whose schema requires
  the properties \<open>title\<close> and \<open>year\<close>, with that validator and that generator.
\<close>

definition first_missing :: "string list \<Rightarrow> string list validator" where
  "first_missing required data =
     (case filter (\<lambda>k. k \<notin> set data) required of
        [] \<Rightarrow> None
      | k # ks \<Rightarrow> Some [''must have required property '' @ [CHR 0x27] @ k @ [CHR 0x27]])"

definition parse_object :: "string \<Rightarrow> string + string list" where
  "parse_object t = (if t = ''{}'' then Inr [] else Inl ''Unexpected token'')"

definition empty_answer :: generator where
  "empty_answer =
     \<lparr> g_model = None, g_baseUrl = None, g_apiKey = ''key'', g_execute = (\<lambda>prompt. Inr ''{}'') \<rparr>"

definition book_item_schema :: json_schema where
  "book_item_schema =
     Schema ''object''
       [(''title'', Schema ''string'' [] None []), (''year'', Schema ''string'' [] None [])]
       None [''title'', ''year'']"

definition book_item_prompt :: "string list prompt" where
  "book_item_prompt =
     \<lparr> p_text = Some ''Name a book.'', p_defaults = [], p_schema = Some book_item_schema,
       p_vars = None, p_generator = Some empty_answer,
       p_validator = Some (first_missing (s_required book_item_schema)), p_format = ''json'' \<rparr>"

text \<open>A store of two prompts, for two holders of each.\<close>

definition shared_store :: "unit prompt list" where
  "shared_store = [topic_prompt, books_prompt]"

section \<open>The schema and its validator\<close>

text \<open>
  A prompt is in sync when its validator is the one compiled from its schema, and when
  it has neither if it has no schema.
\<close>

definition in_sync :: "'j compiler \<Rightarrow> 'j prompt \<Rightarrow> bool" where
  "in_sync compile this =
     (case p_schema this of
        None \<Rightarrow> p_validator this = None
      | Some s \<Rightarrow> (case compile s of Inl msg \<Rightarrow> False | Inr v \<Rightarrow> p_validator this = Some v))"

section \<open>Placeholders, their occurrences, and templates in segments\<close>


















section \<open>What \<open>describeSchema\<close> and \<open>resolvePrompt\<close> can throw\<close>

lemma describeSchema_error: "describeSchema s = Inl e \<Longrightarrow> e = TypeError"
  and describeProps_error: "describeProps acc ps = Inl e \<Longrightarrow> e = TypeError"
  by (induction s and acc ps rule: describeSchema_describeProps.induct)
     (auto split: sum.splits option.splits json_schema.splits if_splits)

lemma resolvePrompt_errors:
  assumes "resolvePrompt this vs = Inl e"
  shows "e = TypeError \<or> (\<exists>ts. ts \<noteq> [] \<and> e = MissingVars ts)"
proof (cases "match_all (substitute (all_vars this vs)
                (case p_text this of None \<Rightarrow> [] | Some t \<Rightarrow> t)) = []")
  case False
  with assms show ?thesis by (auto simp: resolvePrompt_def Let_def)
next
  case True
  with assms obtain s where "describeSchema s = Inl e"
    by (auto simp: resolvePrompt_def Let_def split: option.splits sum.splits)
  then show ?thesis by (simp add: describeSchema_error)
qed

lemma new_PromptClass_no_options: "new_PromptClass compile no_options = Inr blank"
  by (simp add: new_PromptClass_def no_options_def blank_def)

section \<open>The rendered prompt of the test suite\<close>

text \<open>The computation, step by step: the merged variables, the substitution, the scan for
  what is left, the skeleton.\<close>

lemma books_rendered:
  assumes "p_text this = Some ''List {{num}} books by {{name}}.''"
    and "p_defaults this = [(''num'', VNum 3)]"
    and "p_vars this = Some [(''name'', VStr ''George Orwell'')]"
    and "p_schema this = Some book_schema"
    and "p_format this = ''json''"
  shows \<open>toString this =
    Inr ''List 3 books by George Orwell. Please provide a json response with the following structure:\<newline>[\<newline>  {\<newline>    "title": "string",\<newline>    "year": "string"\<newline>  }\<newline>]''\<close>
proof -
  have a: "all_vars this None = [(''num'', VNum 3), (''name'', VStr ''George Orwell'')]"
    unfolding all_vars_def assms by code_simp
  have b: "substitute [(''num'', VNum 3), (''name'', VStr ''George Orwell'')]
             ''List {{num}} books by {{name}}.'' = ''List 3 books by George Orwell.''"
    by code_simp
  have c: "match_all ''List 3 books by George Orwell.'' = []"
    by code_simp
  have d: \<open>(case describeSchema book_schema of
              Inl err \<Rightarrow> Inl err
            | Inr d \<Rightarrow> Inr (''List 3 books by George Orwell.'' @ directive ''json'' @ stringify [] d))
     = Inr ''List 3 books by George Orwell. Please provide a json response with the following structure:\<newline>[\<newline>  {\<newline>    "title": "string",\<newline>    "year": "string"\<newline>  }\<newline>]''\<close>
    by code_simp
  show ?thesis
    unfolding toString_def resolvePrompt_def Let_def a assms b c option.case
    by (simp only: d if_False simp_thms)
qed

text \<open>
  Claim C2. A prompt whose template is \<open>List {{num}} books by {{name}}.\<close>, whose defaults
  are \<open>{num: 3}\<close>, whose pre-bound variables are \<open>{name: "George Orwell"}\<close>, whose schema is
  the array of objects with the string properties \<open>title\<close> and \<open>year\<close>, both required, and
  whose format is the default \<open>json\<close>, renders with \<open>toString\<close> to exactly the sentence, the
  directive, a newline and the skeleton indented by two spaces.
\<close>

theorem toString_books:
  assumes "p_text this = Some ''List {{num}} books by {{name}}.''"
    and "p_defaults this = [(''num'', VNum 3)]"
    and "p_vars this = Some [(''name'', VStr ''George Orwell'')]"
    and "p_schema this = Some book_schema"
    and "p_format this = ''json''"
  shows \<open>toString this =
    Inr ''List 3 books by George Orwell. Please provide a json response with the following structure:\<newline>[\<newline>  {\<newline>    "title": "string",\<newline>    "year": "string"\<newline>  }\<newline>]''\<close>
  using assms by (rule books_rendered)

theorem toString_books_witness:
  \<open>toString \<lparr> p_text = Some ''List {{num}} books by {{name}}.'',
               p_defaults = [(''num'', VNum 3)],
               p_schema = Some book_schema,
               p_vars = Some [(''name'', VStr ''George Orwell'')],
               p_generator = None,
               p_validator = (None :: unit validator option),
               p_format = ''json'' \<rparr> =
    Inr ''List 3 books by George Orwell. Please provide a json response with the following structure:\<newline>[\<newline>  {\<newline>    "title": "string",\<newline>    "year": "string"\<newline>  }\<newline>]''\<close>
  by (rule toString_books) simp_all

section \<open>The precondition of \<open>generate\<close>\<close>

text \<open>
  Claim C8. Without a generator, \<open>generate\<close> fails with the error of line 111 and hands no
  prompt to any \<open>execute\<close>: the check comes before \<open>resolvePrompt\<close>, so the failure is this
  one also when the template has unbound variables. With a generator, whatever else
  happens, the outcome is not that error.
\<close>

theorem generate_no_generator:
  "(p_generator this = None \<longrightarrow> generate parse this vs = (Inl NoGenerator, []))
   \<and> (p_generator this \<noteq> None \<longrightarrow> fst (generate parse this vs) \<noteq> Inl NoGenerator)"
  by (auto simp: generate_def validate_def Let_def
      split: option.splits sum.splits if_splits dest: resolvePrompt_errors)

theorem generate_no_generator_witness:
  "generate (\<lambda>t. Inr ()) (text_m ''Hello, {{value}}.'' blank) None = (Inl NoGenerator, [])
   \<and> fst (generate (\<lambda>t. Inr ())
            (using_m \<lparr> g_model = None, g_baseUrl = None, g_apiKey = ''k'', g_execute = Inr \<rparr>
               (text_m ''Hello, {{value}}.'' blank)) None) \<noteq> Inl NoGenerator"
  using generate_no_generator [of "text_m ''Hello, {{value}}.'' blank" "\<lambda>t. Inr ()" None]
    generate_no_generator [of "using_m \<lparr> g_model = None, g_baseUrl = None, g_apiKey = ''k'', g_execute = Inr \<rparr>
               (text_m ''Hello, {{value}}.'' blank)" "\<lambda>t. Inr ()" None]
  by (simp add: text_m_def using_m_def blank_def)

section \<open>Values are expanded, not inserted\<close>

text \<open>
  Claim C10. The bindings are applied one after the other with \<open>replace\<close>, which reads
  the value as a replacement pattern. A value with \<open>$&\<close> puts the placeholder back and one
  with \<open>$$\<close> leaves a single \<open>$\<close>, so the output is not the value. A value holding the
  placeholder \<open>{{b}}\<close> is substituted by the later binding of \<open>b\<close>; with \<open>b\<close> bound earlier,
  or with a name that is not bound at all, the call fails with the missing-variables
  error although the only placeholder of the template was bound.
\<close>

theorem values_not_verbatim:
  "substitute [(''a'', VStr ''<$&>'')] ''Say {{a}}!'' = ''Say <{{a}}>!''
   \<and> resolvePrompt (text_m ''Say {{a}}!'' (blank :: unit prompt)) (Some [(''a'', VStr ''<$&>'')])
       = Inl (MissingVars [''{{a}}''])
   \<and> resolvePrompt (text_m ''Say {{a}}!'' (blank :: unit prompt)) (Some [(''a'', VStr ''$$5'')])
       = Inr ''Say $5!''
   \<and> resolvePrompt (text_m ''{{a}}'' (blank :: unit prompt))
         (Some [(''a'', VStr ''{{b}}''), (''b'', VStr ''X'')]) = Inr ''X''
   \<and> resolvePrompt (text_m ''{{a}}'' (blank :: unit prompt))
         (Some [(''b'', VStr ''X''), (''a'', VStr ''{{b}}'')]) = Inl (MissingVars [''{{b}}''])
   \<and> resolvePrompt (text_m ''{{a}}'' (blank :: unit prompt))
         (Some [(''a'', VStr ''{{c}}'')]) = Inl (MissingVars [''{{c}}''])"
  by code_simp

section \<open>Keeping the validator in sync\<close>

text \<open>The constructor, the setters, a successful \<open>schema\<close>, \<open>vars\<close> and \<open>fromJSON\<close> all
  leave the prompt in sync.\<close>

lemma new_PromptClass_in_sync: "new_PromptClass compile opts = Inr p \<Longrightarrow> in_sync compile p"
  by (auto simp: new_PromptClass_def in_sync_def Let_def split: option.splits sum.splits)

lemma text_m_in_sync: "in_sync compile this \<Longrightarrow> in_sync compile (text_m t this)"
  by (auto simp: in_sync_def text_m_def split: option.splits sum.splits)

lemma defaults_in_sync: "in_sync compile this \<Longrightarrow> in_sync compile (defaults d this)"
  by (auto simp: in_sync_def defaults_def split: option.splits sum.splits)

lemma using_m_in_sync: "in_sync compile this \<Longrightarrow> in_sync compile (using_m g this)"
  by (auto simp: in_sync_def using_m_def split: option.splits sum.splits)

lemma schema_success_in_sync: "schema compile s this = (Inr u, p) \<Longrightarrow> in_sync compile p"
  by (auto simp: schema_def in_sync_def Let_def split: sum.splits)

lemma vars_in_sync: "vars compile vs this = Inr p \<Longrightarrow> in_sync compile p"
  by (auto simp: vars_def in_sync_def new_PromptClass_def Let_def split: sum.splits option.splits)

lemma fromJSON_in_sync: "fromJSON compile data g = Inr p \<Longrightarrow> in_sync compile p"
  by (auto simp: fromJSON_def using_m_def in_sync_def new_PromptClass_def Let_def
      split: sum.splits option.splits)

text \<open>
  Claim C4 fails on the code. When \<open>compile\<close> throws, \<open>schema\<close> has already stored the new
  schema (line 104) and the validator is still the one it had: the error propagates,
  and the object it leaves behind pairs the new schema with the old validator and is
  not in sync.
\<close>

theorem schema_failure_out_of_sync:
  assumes "compile s = Inl msg"
  shows "schema compile s this = (Inl (CompileError msg), this\<lparr>p_schema := Some s\<rparr>)
     \<and> p_validator (snd (schema compile s this)) = p_validator this
     \<and> \<not> in_sync compile (snd (schema compile s this))"
  using assms by (simp add: schema_def in_sync_def Let_def)

theorem schema_failure_out_of_sync_witness:
  "reject_duplicates duplicate_schema
     = Inl ''schema is invalid: data/required must NOT have duplicate items''
   \<and> in_sync reject_duplicates books_prompt
   \<and> schema reject_duplicates duplicate_schema books_prompt
       = (Inl (CompileError ''schema is invalid: data/required must NOT have duplicate items''),
          books_prompt\<lparr>p_schema := Some duplicate_schema\<rparr>)
   \<and> p_validator (snd (schema reject_duplicates duplicate_schema books_prompt))
       = p_validator books_prompt
   \<and> \<not> in_sync reject_duplicates (snd (schema reject_duplicates duplicate_schema books_prompt))"
proof -
  have h: "reject_duplicates duplicate_schema
             = Inl ''schema is invalid: data/required must NOT have duplicate items''"
    by (simp add: reject_duplicates_def duplicate_schema_def)
  have i: "in_sync reject_duplicates books_prompt"
    by (simp add: in_sync_def books_prompt_def reject_duplicates_def book_schema_def)
  show ?thesis
    using h i schema_failure_out_of_sync [of reject_duplicates duplicate_schema _ books_prompt, OF h]
    by blast
qed

section \<open>Serialising and restoring\<close>

lemma resolvePrompt_depends:
  assumes "p_text p = p_text q" and "p_defaults p = p_defaults q" and "p_schema p = p_schema q"
    and "p_schema q = None \<or> p_format p = p_format q"
  shows "resolvePrompt p (Some v) = resolvePrompt q (Some v)"
proof (cases "p_schema q")
  case None
  with assms show ?thesis by (simp add: resolvePrompt_def all_vars_def Let_def)
next
  case (Some s)
  with assms have "p_format p = p_format q" by simp
  with Some assms(1-3) show ?thesis
    by (simp add: resolvePrompt_def all_vars_def Let_def split: sum.splits)
qed

lemma fromJSON_toJSON:
  assumes "in_sync compile this"
  shows "fromJSON compile (toJSON this) g =
           Inr (this\<lparr>p_vars := None, p_generator := Some g, p_format := ''json''\<rparr>)"
proof (cases "p_schema this")
  case None
  with assms show ?thesis
    by (simp add: fromJSON_def new_PromptClass_def toJSON_def in_sync_def using_m_def)
next
  case (Some s)
  with assms obtain v where "compile s = Inr v" "p_validator this = Some v"
    by (auto simp: in_sync_def split: sum.splits)
  with Some show ?thesis
    by (simp add: fromJSON_def new_PromptClass_def toJSON_def using_m_def)
qed

text \<open>
  Claim C3 as stated fails: \<open>toJSON\<close> carries the template, the defaults and the schema,
  not the format. A prompt constructed with the format \<open>yaml\<close> names \<open>yaml\<close> in its
  directive; restored from its record it names \<open>json\<close>.
\<close>

theorem roundtrip_counterexample:
  \<open>new_PromptClass accept_all yaml_options = Inr yaml_prompt
   \<and> fromJSON accept_all (toJSON yaml_prompt) echo = Inr yaml_restored
   \<and> resolvePrompt yaml_prompt (Some [])
       = Inr ''Hi. Please provide a yaml response with the following structure:\<newline>"string"''
   \<and> resolvePrompt yaml_restored (Some [])
       = Inr ''Hi. Please provide a json response with the following structure:\<newline>"string"''\<close>
proof -
  have a: "new_PromptClass accept_all yaml_options = Inr yaml_prompt"
    by (simp add: new_PromptClass_def yaml_options_def yaml_prompt_def accept_all_def)
  have b: "fromJSON accept_all (toJSON yaml_prompt) echo = Inr yaml_restored"
    by (simp add: fromJSON_def new_PromptClass_def toJSON_def yaml_prompt_def yaml_restored_def
        accept_all_def using_m_def)
  have c: \<open>resolvePrompt yaml_prompt (Some [])
       = Inr ''Hi. Please provide a yaml response with the following structure:\<newline>"string"''\<close>
    by code_simp
  have d: \<open>resolvePrompt yaml_restored (Some [])
       = Inr ''Hi. Please provide a json response with the following structure:\<newline>"string"''\<close>
    by code_simp
  from a b c d show ?thesis by blast
qed

text \<open>
  Claim C3, amended. For every prompt that is in sync, \<open>fromJSON\<close> of its \<open>toJSON\<close> with any
  generator succeeds and the restored prompt has the same template, defaults and schema,
  whatever its format. When moreover the format is the default \<open>json\<close>, or there is no
  schema, resolving the restored prompt with any explicit variables gives the result of
  resolving the original with them.
\<close>

theorem roundtrip_resolve:
  assumes "in_sync compile this"
  shows "\<exists>p. fromJSON compile (toJSON this) g = Inr p
      \<and> p_text p = p_text this \<and> p_defaults p = p_defaults this \<and> p_schema p = p_schema this
      \<and> (p_schema this = None \<or> p_format this = ''json''
           \<longrightarrow> resolvePrompt p (Some v) = resolvePrompt this (Some v))"
proof -
  let ?p = "this\<lparr>p_vars := None, p_generator := Some g, p_format := ''json''\<rparr>"
  have "resolvePrompt ?p (Some v) = resolvePrompt this (Some v)"
    if "p_schema this = None \<or> p_format this = ''json''"
    using that by (intro resolvePrompt_depends) auto
  then show ?thesis
    using fromJSON_toJSON [OF assms, of g] by simp
qed

theorem roundtrip_resolve_witness:
  "in_sync accept_all books_prompt
   \<and> (p_schema books_prompt = None \<or> p_format books_prompt = ''json'')
   \<and> (\<exists>p. fromJSON accept_all (toJSON books_prompt) echo = Inr p
         \<and> p_text p = p_text books_prompt \<and> p_defaults p = p_defaults books_prompt
         \<and> p_schema p = p_schema books_prompt
         \<and> resolvePrompt p (Some [(''name'', VStr ''Jane Austen'')])
             = resolvePrompt books_prompt (Some [(''name'', VStr ''Jane Austen'')]))
   \<and> in_sync accept_all yaml_prompt
   \<and> (\<exists>p. fromJSON accept_all (toJSON yaml_prompt) echo = Inr p
         \<and> p_text p = p_text yaml_prompt \<and> p_defaults p = p_defaults yaml_prompt
         \<and> p_schema p = p_schema yaml_prompt)"
proof -
  have i: "in_sync accept_all books_prompt"
    by (simp add: in_sync_def books_prompt_def accept_all_def)
  have f: "p_schema books_prompt = None \<or> p_format books_prompt = ''json''"
    by (simp add: books_prompt_def)
  have y: "in_sync accept_all yaml_prompt"
    by (simp add: in_sync_def yaml_prompt_def accept_all_def)
  show ?thesis
    using i f y roundtrip_resolve [OF i, of echo "[(''name'', VStr ''Jane Austen'')]"]
      roundtrip_resolve [OF y, of echo "[]"]
    by blast
qed

section \<open>\<open>vars\<close> copies through \<open>toJSON\<close>\<close>

text \<open>
  Claim C6 fails on the code. The prompt that \<open>vars\<close> returns is built from \<open>toJSON\<close>
  (line 129): it has the template, the defaults and the schema of the original and the
  given variables, but no generator, and the format \<open>json\<close> whatever the original had.
\<close>

theorem vars_drops_generator:
  assumes "vars compile vs this = Inr p"
  shows "p_text p = p_text this \<and> p_defaults p = p_defaults this \<and> p_schema p = p_schema this
     \<and> p_vars p = Some vs \<and> p_generator p = None \<and> p_format p = ''json''
     \<and> generate parse p None = (Inl NoGenerator, [])"
  using assms
  by (auto simp: vars_def new_PromptClass_def toJSON_def generate_def Let_def
      split: sum.splits option.splits)

theorem vars_drops_generator_witness:
  "p_generator topic_prompt = Some echo
   \<and> generate parse_any topic_prompt (Some [(''topic'', VStr ''color'')])
       = (Inr (Text ''What is your favorite color?''), [''What is your favorite color?''])
   \<and> vars accept_all [(''topic'', VStr ''color'')] topic_prompt
       = Inr (topic_prompt\<lparr>p_vars := Some [(''topic'', VStr ''color'')], p_generator := None\<rparr>)
   \<and> generate parse_any (topic_prompt\<lparr>p_vars := Some [(''topic'', VStr ''color'')], p_generator := None\<rparr>)
        None = (Inl NoGenerator, [])"
proof -
  have a: "p_generator topic_prompt = Some echo"
    by (simp add: topic_prompt_def text_m_def using_m_def)
  have b: "generate parse_any topic_prompt (Some [(''topic'', VStr ''color'')])
       = (Inr (Text ''What is your favorite color?''), [''What is your favorite color?''])"
    by code_simp
  have c: "vars accept_all [(''topic'', VStr ''color'')] topic_prompt
       = Inr (topic_prompt\<lparr>p_vars := Some [(''topic'', VStr ''color'')], p_generator := None\<rparr>)"
    by (simp add: vars_def new_PromptClass_def toJSON_def topic_prompt_def text_m_def using_m_def
        blank_def)
  show ?thesis
    using a b c vars_drops_generator [OF c, of parse_any] by blast
qed

section \<open>Two holders of one prompt\<close>

text \<open>
  Claim C5 as stated fails for \<open>schema\<close>, which assigns to fields of \<open>this\<close>: after the call
  through one reference, the object that every holder of the reference reads has the new
  schema and validator.
\<close>

theorem schema_seen_by_other_holder:
  "call_schema accept_all book_schema 0 [blank]
     = Some (Inr 0, [blank\<lparr>p_schema := Some book_schema, p_validator := Some always_valid\<rparr>])
   \<and> p_schema ([blank :: unit prompt] ! 0) = None
   \<and> p_schema ([blank\<lparr>p_schema := Some book_schema, p_validator := Some always_valid\<rparr>] ! 0)
       = Some book_schema"
  by (simp add: call_schema_def schema_def accept_all_def blank_def)

text \<open>
  Claim C5, amended. \<open>vars\<close> changes no object of the store: when it succeeds it allocates
  the object that \<open>vars\<close> builds and returns its reference, a new one, and when it throws
  the store is as it was. \<open>schema\<close> changes the object it is called on only, in place: all
  other objects stay as they were, and so do the template, the defaults, the pre-bound
  variables, the generator and the format of that object. When \<open>schema\<close> returns, it
  returns the reference it was called on, and the object has the new schema and the
  validator compiled from it. Both calls are defined on every allocated reference.
\<close>

theorem store_frame:
  "(r < length h \<longrightarrow> call_vars compile vs r h \<noteq> None \<and> call_schema compile s r h \<noteq> None)
   \<and> (call_vars compile vs r h = Some (res, h') \<longrightarrow>
        take (length h) h' = h
        \<and> (\<forall>err. res = Inl err \<longrightarrow> h' = h)
        \<and> (\<forall>r'. res = Inr r' \<longrightarrow>
              r' = length h \<and> length h' = Suc (length h)
              \<and> vars compile vs (h ! r) = Inr (h' ! r')))
   \<and> (call_schema compile s r h = Some (res, h') \<longrightarrow>
        length h' = length h \<and> (\<forall>r'. r' \<noteq> r \<longrightarrow> h' ! r' = h ! r')
        \<and> p_text (h' ! r) = p_text (h ! r)
        \<and> p_defaults (h' ! r) = p_defaults (h ! r) \<and> p_vars (h' ! r) = p_vars (h ! r)
        \<and> p_generator (h' ! r) = p_generator (h ! r) \<and> p_format (h' ! r) = p_format (h ! r)
        \<and> (\<forall>r'. res = Inr r' \<longrightarrow>
              r' = r \<and> p_schema (h' ! r) = Some s
              \<and> (\<exists>v. compile s = Inr v \<and> p_validator (h' ! r) = Some v)))"
proof (intro conjI impI)
  assume "r < length h"
  then show "call_vars compile vs r h \<noteq> None"
    by (simp add: call_vars_def split: sum.splits)
next
  assume "r < length h"
  then show "call_schema compile s r h \<noteq> None"
    by (simp add: call_schema_def split: sum.splits prod.splits)
next
  assume "call_vars compile vs r h = Some (res, h')"
  then show "take (length h) h' = h"
    by (auto simp: call_vars_def split: if_splits sum.splits)
next
  assume "call_vars compile vs r h = Some (res, h')"
  then show "\<forall>err. res = Inl err \<longrightarrow> h' = h"
    by (auto simp: call_vars_def split: if_splits sum.splits)
next
  assume "call_vars compile vs r h = Some (res, h')"
  then show "\<forall>r'. res = Inr r' \<longrightarrow>
               r' = length h \<and> length h' = Suc (length h)
               \<and> vars compile vs (h ! r) = Inr (h' ! r')"
    by (auto simp: call_vars_def split: if_splits sum.splits)
next
  assume a: "call_schema compile s r h = Some (res, h')"
  then obtain out this' where o: "schema compile s (h ! r) = (out, this')" "r < length h"
    "h' = h[r := this']" "res = (case out of Inl err \<Rightarrow> Inl err | Inr u \<Rightarrow> Inr r)"
    by (auto simp: call_schema_def split: if_splits sum.splits prod.splits)
  show "length h' = length h" using o by simp
  show "\<forall>r'. r' \<noteq> r \<longrightarrow> h' ! r' = h ! r'" using o by simp
  show "p_text (h' ! r) = p_text (h ! r)" using o by (auto simp: schema_def Let_def split: sum.splits)
  show "p_defaults (h' ! r) = p_defaults (h ! r)"
    using o by (auto simp: schema_def Let_def split: sum.splits)
  show "p_vars (h' ! r) = p_vars (h ! r)" using o by (auto simp: schema_def Let_def split: sum.splits)
  show "p_generator (h' ! r) = p_generator (h ! r)"
    using o by (auto simp: schema_def Let_def split: sum.splits)
  show "p_format (h' ! r) = p_format (h ! r)"
    using o by (auto simp: schema_def Let_def split: sum.splits)
  show "\<forall>r'. res = Inr r' \<longrightarrow>
          r' = r \<and> p_schema (h' ! r) = Some s
          \<and> (\<exists>v. compile s = Inr v \<and> p_validator (h' ! r) = Some v)"
    using o by (auto simp: schema_def Let_def split: sum.splits)
qed

text \<open>At a store of two prompts, neither of them blank: \<open>schema\<close> through the first
  reference, \<open>vars\<close> through the second.\<close>

theorem store_frame_witness:
  "(0::nat) < length shared_store \<and> (1::nat) < length shared_store
   \<and> call_schema accept_all book_schema 0 shared_store
       = Some (Inr 0, [topic_prompt\<lparr>p_schema := Some book_schema,
                                    p_validator := Some always_valid\<rparr>, books_prompt])
   \<and> [topic_prompt\<lparr>p_schema := Some book_schema, p_validator := Some always_valid\<rparr>,
       books_prompt] ! 1 = shared_store ! 1
   \<and> p_text ([topic_prompt\<lparr>p_schema := Some book_schema, p_validator := Some always_valid\<rparr>,
               books_prompt] ! 0) = p_text (shared_store ! 0)
   \<and> p_generator ([topic_prompt\<lparr>p_schema := Some book_schema,
                                  p_validator := Some always_valid\<rparr>, books_prompt] ! 0)
       = p_generator (shared_store ! 0)
   \<and> p_schema ([topic_prompt\<lparr>p_schema := Some book_schema, p_validator := Some always_valid\<rparr>,
                 books_prompt] ! 0) = Some book_schema
   \<and> (\<exists>v. accept_all book_schema = Inr v
          \<and> p_validator ([topic_prompt\<lparr>p_schema := Some book_schema,
                                        p_validator := Some always_valid\<rparr>, books_prompt] ! 0)
              = Some v)
   \<and> call_vars accept_all [(''name'', VStr ''Jane Austen'')] 1 shared_store
       = Some (Inr 2, [topic_prompt, books_prompt,
                       books_prompt\<lparr>p_vars := Some [(''name'', VStr ''Jane Austen'')]\<rparr>])
   \<and> take (length shared_store)
        [topic_prompt, books_prompt,
         books_prompt\<lparr>p_vars := Some [(''name'', VStr ''Jane Austen'')]\<rparr>] = shared_store
   \<and> vars accept_all [(''name'', VStr ''Jane Austen'')] (shared_store ! 1)
       = Inr ([topic_prompt, books_prompt,
               books_prompt\<lparr>p_vars := Some [(''name'', VStr ''Jane Austen'')]\<rparr>] ! 2)"
proof -
  define vs where "vs = [(''name'', VStr ''Jane Austen'')]"
  define h1 where
    "h1 = [topic_prompt\<lparr>p_schema := Some book_schema, p_validator := Some always_valid\<rparr>,
           books_prompt]"
  define h2 where "h2 = [topic_prompt, books_prompt, books_prompt\<lparr>p_vars := Some vs\<rparr>]"
  have l: "(0::nat) < length shared_store" "(1::nat) < length shared_store" "(1::nat) \<noteq> 0"
    by (simp_all add: shared_store_def)
  have a: "call_schema accept_all book_schema 0 shared_store = Some (Inr 0, h1)"
    by (simp add: call_schema_def schema_def accept_all_def shared_store_def h1_def)
  have b: "call_vars accept_all vs 1 shared_store = Some (Inr 2, h2)"
    by (simp add: call_vars_def vars_def new_PromptClass_def toJSON_def accept_all_def
        shared_store_def books_prompt_def h2_def)
  have "(0::nat) < length shared_store \<and> (1::nat) < length shared_store
        \<and> call_schema accept_all book_schema 0 shared_store = Some (Inr 0, h1)
        \<and> h1 ! 1 = shared_store ! 1
        \<and> p_text (h1 ! 0) = p_text (shared_store ! 0)
        \<and> p_generator (h1 ! 0) = p_generator (shared_store ! 0)
        \<and> p_schema (h1 ! 0) = Some book_schema
        \<and> (\<exists>v. accept_all book_schema = Inr v \<and> p_validator (h1 ! 0) = Some v)
        \<and> call_vars accept_all vs 1 shared_store = Some (Inr 2, h2)
        \<and> take (length shared_store) h2 = shared_store
        \<and> vars accept_all vs (shared_store ! 1) = Inr (h2 ! 2)"
    using l a b
      store_frame [of 0 shared_store accept_all vs book_schema "Inr 0" h1,
        THEN conjunct2, THEN conjunct2, THEN mp, OF a]
      store_frame [of 1 shared_store accept_all vs book_schema "Inr 2" h2,
        THEN conjunct2, THEN conjunct1, THEN mp, OF b]
    by auto
  then show ?thesis unfolding vs_def h1_def h2_def .
qed


section \<open>Character classes and the shape of a match\<close>


















section \<open>Substitution leaves the placeholders of other names alone\<close>







section \<open>The scan reports every occurrence\<close>





section \<open>The missing-variables error\<close>




section \<open>Templates whose placeholders are all bound\<close>













section \<open>What a validation failure lists\<close>

text \<open>
  Claim C9 fails on the code as it sets Ajv up. When the decoded data is invalid,
  \<open>generate\<close> fails with the error of line 88, whose message joins the messages of the
  errors the validator reports: all of them, and nothing else. How many of the violated
  constraints it names is therefore what the validator reports. The validators of a
  prompt are compiled by \<open>new Ajv()\<close> without options (lines 30 and 105); a validator that
  returns at the first failing constraint, as Ajv's do unless \<open>allErrors\<close> is set, reports
  one error for an object that lacks two required properties, and the message names the
  first of them only.
\<close>

theorem generate_lists_reported_errors:
  assumes "p_generator this = Some g" and "resolvePrompt this vs = Inr prompt"
    and "g_execute g prompt = Inr generatedText" and "p_schema this = Some s"
    and "p_validator this = Some validator" and "parse generatedText = Inr data"
    and "validator data = Some msgs"
  shows "generate parse this vs = (Inl (InvalidData msgs), [prompt])
     \<and> message (InvalidData msgs) = ''Invalid data: '' @ join '', '' msgs"
  using assms by (simp add: generate_def validate_def)

theorem generate_lists_reported_errors_witness:
  \<open>filter (\<lambda>k. k \<notin> set []) (s_required book_item_schema) = [''title'', ''year'']
   \<and> generate parse_object book_item_prompt None
       = (Inl (InvalidData [''must have required property '' @ [CHR 0x27] @ ''title'' @ [CHR 0x27]]),
          [''Name a book. Please provide a json response with the following structure:\<newline>{\<newline>  "title": "string",\<newline>  "year": "string"\<newline>}''])
   \<and> message (InvalidData [''must have required property '' @ [CHR 0x27] @ ''title'' @ [CHR 0x27]])
       = ''Invalid data: must have required property '' @ [CHR 0x27] @ ''title'' @ [CHR 0x27]\<close>
proof -
  let ?p = \<open>''Name a book. Please provide a json response with the following structure:\<newline>{\<newline>  "title": "string",\<newline>  "year": "string"\<newline>}''\<close>
  have a: "p_generator book_item_prompt = Some empty_answer" by (simp add: book_item_prompt_def)
  have b: "resolvePrompt book_item_prompt None = Inr ?p" by code_simp
  have c: "g_execute empty_answer ?p = Inr ''{}''" by (simp add: empty_answer_def)
  have d: "p_schema book_item_prompt = Some book_item_schema" by (simp add: book_item_prompt_def)
  have e: "p_validator book_item_prompt = Some (first_missing (s_required book_item_schema))"
    by (simp add: book_item_prompt_def)
  have f: "parse_object ''{}'' = Inr []" by (simp add: parse_object_def)
  have g: "first_missing (s_required book_item_schema) []
             = Some [''must have required property '' @ [CHR 0x27] @ ''title'' @ [CHR 0x27]]"
    by (simp add: first_missing_def book_item_schema_def)
  have h: "filter (\<lambda>k. k \<notin> set []) (s_required book_item_schema) = [''title'', ''year'']"
    by (simp add: book_item_schema_def)
  show ?thesis
    using h generate_lists_reported_errors [where parse = parse_object
        and validator = "first_missing (s_required book_item_schema)", OF a b c d e f g]
    by simp
qed

end
